theory Spec2Isabelle
  imports Main "HOL-Library.Word" "HOL-Library.List_Lexorder"
begin

section \<open>JavaScript values used by the program\<close>

text \<open>
  A JavaScript string is a sequence of UTF-16 code units. String literals of the source are
  written with \<open>js\<close>, which maps every character of an ASCII literal to its code unit.
\<close>

type_synonym jsstring = "16 word list"

definition js :: "string \<Rightarrow> jsstring" where
  "js s = map of_char s"

text \<open>
  \<open>String.prototype.trim\<close> removes the code points WhiteSpace and LineTerminator of
  ECMAScript from both ends of the string.
\<close>

definition isWhiteSpace :: "16 word \<Rightarrow> bool" where
  "isWhiteSpace c = (c \<in> set [0x0009, 0x000A, 0x000B, 0x000C, 0x000D, 0x0020, 0x00A0, 0x1680,
      0x2000, 0x2001, 0x2002, 0x2003, 0x2004, 0x2005, 0x2006, 0x2007, 0x2008, 0x2009, 0x200A,
      0x2028, 0x2029, 0x202F, 0x205F, 0x3000, 0xFEFF])"

definition trim :: "jsstring \<Rightarrow> jsstring" where
  "trim s = rev (dropWhile isWhiteSpace (rev (dropWhile isWhiteSpace s)))"

text \<open>
  \<open>`${n}`\<close> for an integral number \<open>n\<close>: the decimal digits, with a minus sign for a
  negative number (the type identifiers of the driver are 32-bit integers, far below the
  magnitude where JavaScript switches to exponent notation).
\<close>

fun digits10 :: "nat \<Rightarrow> jsstring" where
  "digits10 n =
     (if n < 10 then [of_nat (48 + n)] else digits10 (n div 10) @ [of_nat (48 + n mod 10)])"

declare digits10.simps [simp del]

definition numberToString :: "int \<Rightarrow> jsstring" where
  "numberToString i = (if i < 0 then 0x2D # digits10 (nat (- i)) else digits10 (nat i))"

text \<open>
  A thrown value. The source only reads \<open>.message\<close>; \<open>transport_severed\<close> records
  whether the driver raised the error because the connection itself was lost, so that the
  claims that talk about that case can be stated. \<open>new Error(m)\<close> of the source is
  \<open>new_Error m\<close>.
\<close>

datatype js_error = JsError (transport_severed: bool) (err_message: jsstring)

definition new_Error :: "jsstring \<Rightarrow> js_error" where
  "new_Error m = JsError False m"

text \<open>What an awaited call answers: \<open>Inl e\<close> when it rejects with \<open>e\<close>, \<open>Inr v\<close> when
  it resolves with \<open>v\<close>.\<close>

definition resolved :: "js_error + 'a \<Rightarrow> bool" where
  "resolved out = (case out of Inl _ \<Rightarrow> False | Inr _ \<Rightarrow> True)"

text \<open>A JSON value, as \<open>JSON.parse\<close> returns it and as the rows of a result set hold it.\<close>

datatype json =
    JNull
  | JBool bool
  | JNum int
  | JStr jsstring
  | JArr "json list"
  | JObj "(jsstring \<times> json) list"



section \<open>types.ts\<close>

record PostgreSQLConnectionConfig =
  id_opt :: "jsstring option"
  name :: jsstring
  host :: jsstring
  port :: int
  database :: jsstring
  username :: jsstring
  password :: jsstring
  ssl :: bool
  savePassword :: bool
  lastUsed :: "jsstring option"

record ConnectionTestResult =
  success :: bool
  message :: jsstring
  error :: "js_error option"

record FieldInfo =
  field_name :: jsstring
  dataTypeID :: int
  dataType :: "jsstring option"

record QueryResult =
  rows :: "json list"
  fields_qr :: "FieldInfo list"
  rowCount :: int
  command :: jsstring
  duration :: int


section \<open>The main process: database-handler.ts\<close>

subsection \<open>The driver\<close>

text \<open>
  The \<open>pg\<close> driver is external. A \<open>Client\<close> object is identified by a number, given
  out in the order of construction. Every call on a client is appended to a log; what the
  call answers (it resolves, or it rejects with an error) is an argument of the operation
  that makes the call.
\<close>

datatype ssl_setting = SslOff | SslOptions (rejectUnauthorized: bool)

record ClientConfig =
  cc_host :: jsstring
  cc_port :: int
  cc_database :: jsstring
  cc_user :: jsstring
  cc_password :: jsstring
  cc_ssl :: ssl_setting

datatype statement =
    UserSql jsstring
  | SelectOne
  | SchemataQuery
  | TablesQuery jsstring
  | MatViewQuery jsstring
  | ColumnsQuery jsstring jsstring

datatype driver_event =
    NewClient nat ClientConfig
  | ClientConnect nat bool
  | ClientEnd nat
  | ClientQuery nat statement

record PgField =
  pg_name :: jsstring
  pg_dataTypeID :: int

record PgQueryResult =
  pg_rows :: "json list"
  pg_fields :: "PgField list"
  pg_rowCount :: "int option"
  pg_command :: "jsstring option"

subsection \<open>The type catalogue\<close>

definition typeMap :: "(int \<times> jsstring) list" where
  "typeMap =
     [(16, js ''boolean''),
      (23, js ''integer''),
      (21, js ''smallint''),
      (20, js ''bigint''),
      (700, js ''real''),
      (701, js ''double precision''),
      (1700, js ''numeric''),
      (25, js ''text''),
      (1043, js ''varchar''),
      (1082, js ''date''),
      (1114, js ''timestamp''),
      (1184, js ''timestamptz''),
      (114, js ''json''),
      (3802, js ''jsonb''),
      (2950, js ''uuid''),
      (1015, js ''text[]''),
      (1007, js ''integer[]'')]"

text \<open>\<open>typeMap[typeId] || `unknown(${typeId})`\<close>: an absent entry and an empty name both
  fall through to the template.\<close>

definition getDataTypeName :: "int \<Rightarrow> jsstring" where
  "getDataTypeName typeId =
     (case map_of typeMap typeId of
        Some n \<Rightarrow> if n \<noteq> [] then n else js ''unknown('' @ numberToString typeId @ js '')''
      | None \<Rightarrow> js ''unknown('' @ numberToString typeId @ js '')'')"


subsection \<open>class PostgreSQLService of the main process\<close>

text \<open>
  The fields of the class, followed by what the model keeps of its surroundings: the number
  of \<open>Client\<close> objects constructed so far, the log of the calls made on clients, and
  the lines written with \<open>console.error\<close>.
\<close>

record MainService =
  client :: "nat option"
  config :: "ClientConfig option"
  connectionConfig :: "PostgreSQLConnectionConfig option"
  allocated :: nat
  driver_log :: "driver_event list"
  console :: "(jsstring \<times> js_error) list"

definition initialMain :: MainService where
  "initialMain =
     \<lparr>client = None, config = None, connectionConfig = None,
      allocated = 0, driver_log = [], console = []\<rparr>"

definition driver_call :: "driver_event \<Rightarrow> MainService \<Rightarrow> MainService" where
  "driver_call ev s = s\<lparr>driver_log := driver_log s @ [ev]\<rparr>"

definition console_error :: "jsstring \<Rightarrow> js_error \<Rightarrow> MainService \<Rightarrow> MainService" where
  "console_error label e s = s\<lparr>console := console s @ [(label, e)]\<rparr>"

definition clientConfigOf :: "PostgreSQLConnectionConfig \<Rightarrow> ClientConfig" where
  "clientConfigOf cfg =
     \<lparr>cc_host = host cfg, cc_port = port cfg, cc_database = database cfg,
      cc_user = username cfg, cc_password = password cfg,
      cc_ssl = (if ssl cfg then SslOptions False else SslOff)\<rparr>"

text \<open>\<open>createClient\<close> stores both configurations in the service before it constructs
  the client, whoever calls it.\<close>

definition createClient :: "PostgreSQLConnectionConfig \<Rightarrow> MainService \<Rightarrow> nat \<times> MainService" where
  "createClient cfg s =
     (let clientConfig = clientConfigOf cfg;
          s1 = s\<lparr>config := Some clientConfig, connectionConfig := Some cfg\<rparr>;
          c = allocated s1
      in (c, driver_call (NewClient c clientConfig) (s1\<lparr>allocated := Suc c\<rparr>)))"

text \<open>
  \<open>disconnect\<close>: \<open>end_out\<close> is what \<open>client.end()\<close> answers. The \<open>catch\<close> handles
  every rejection, so the operation always returns normally.
\<close>

definition disconnect :: "js_error + unit \<Rightarrow> MainService \<Rightarrow> (js_error + unit) \<times> MainService" where
  "disconnect end_out s =
     (case client s of
        None \<Rightarrow> (Inr (), s)
      | Some c \<Rightarrow>
          (let s1 = driver_call (ClientEnd c) s;
               s2 = (case end_out of
                       Inl e \<Rightarrow> console_error (js ''Error during disconnect:'') e s1
                     | Inr _ \<Rightarrow> s1)
           in (Inr (), s2\<lparr>client := None, config := None\<rparr>)))"

definition connect_failed :: "js_error \<Rightarrow> MainService \<Rightarrow> ConnectionTestResult \<times> MainService" where
  "connect_failed e s =
     (\<lparr>success = False, message = js ''Failed to connect: '' @ err_message e, error = Some e\<rparr>,
      s\<lparr>client := None, config := None\<rparr>)"

text \<open>\<open>connect\<close>: \<open>end_out\<close> answers the \<open>end()\<close> of the previous client, if there is
  one, and \<open>connect_out\<close> answers \<open>client.connect()\<close> of the new one.\<close>

definition connect ::
  "js_error + unit \<Rightarrow> js_error + unit \<Rightarrow> PostgreSQLConnectionConfig \<Rightarrow> MainService
     \<Rightarrow> ConnectionTestResult \<times> MainService" where
  "connect end_out connect_out cfg s =
     (case disconnect end_out s of
        (Inl e, s1) \<Rightarrow> connect_failed e s1
      | (Inr _, s1) \<Rightarrow>
          (let (c, s2) = createClient cfg s1;
               s3 = s2\<lparr>client := Some c\<rparr>;
               s4 = driver_call (ClientConnect c (resolved connect_out)) s3
           in case connect_out of
                Inl e \<Rightarrow> connect_failed e s4
              | Inr _ \<Rightarrow>
                  (\<lparr>success = True, message = js ''Successfully connected to database'',
                    error = None\<rparr>, s4)))"

definition test_failed :: "js_error \<Rightarrow> ConnectionTestResult" where
  "test_failed e =
     \<lparr>success = False, message = js ''Connection test failed: '' @ err_message e,
      error = Some e\<rparr>"

text \<open>\<open>testConnection\<close>: \<open>connect_out\<close>, \<open>query_out\<close> and \<open>end_out\<close> answer the three
  calls on the temporary client; the query is only sent when the connect resolved, the
  \<open>end()\<close> of the \<open>finally\<close> block is always sent.\<close>

definition testConnection ::
  "js_error + unit \<Rightarrow> js_error + unit \<Rightarrow> js_error + unit \<Rightarrow> PostgreSQLConnectionConfig
     \<Rightarrow> MainService \<Rightarrow> ConnectionTestResult \<times> MainService" where
  "testConnection connect_out query_out end_out cfg s =
     (let (tempClient, s1) = createClient cfg s;
          s2 = driver_call (ClientConnect tempClient (resolved connect_out)) s1;
          (res, s3) =
            (case connect_out of
               Inl e \<Rightarrow> (test_failed e, s2)
             | Inr _ \<Rightarrow>
                 (let s2' = driver_call (ClientQuery tempClient SelectOne) s2
                  in case query_out of
                       Inl e \<Rightarrow> (test_failed e, s2')
                     | Inr _ \<Rightarrow>
                         (\<lparr>success = True, message = js ''Connection test successful'',
                           error = None\<rparr>, s2')));
          s4 = driver_call (ClientEnd tempClient) s3;
          s5 = (case end_out of
                  Inl e \<Rightarrow> console_error (js ''Error closing test connection:'') e s4
                | Inr _ \<Rightarrow> s4)
      in (res, s5))"

text \<open>The Result Normalizer: the body of the \<open>try\<close> of \<open>executeQuery\<close>.\<close>

definition normalize :: "PgQueryResult \<Rightarrow> int \<Rightarrow> QueryResult" where
  "normalize result dur =
     \<lparr>rows = pg_rows result,
      fields_qr = map (\<lambda>field. \<lparr>field_name = pg_name field, dataTypeID = pg_dataTypeID field,
                                 dataType = Some (getDataTypeName (pg_dataTypeID field))\<rparr>)
                    (pg_fields result),
      rowCount = (case pg_rowCount result of None \<Rightarrow> 0 | Some n \<Rightarrow> n),
      command = (case pg_command result of None \<Rightarrow> [] | Some c \<Rightarrow> c),
      duration = dur\<rparr>"

text \<open>\<open>executeQuery\<close>: \<open>query_out\<close> answers \<open>client.query(sql)\<close>; \<open>startTime\<close> and
  \<open>endTime\<close> are the two readings of \<open>Date.now()\<close>. A rejection is thrown on.\<close>

definition executeQuery ::
  "jsstring \<Rightarrow> js_error + PgQueryResult \<Rightarrow> int \<Rightarrow> int \<Rightarrow> MainService
     \<Rightarrow> (js_error + QueryResult) \<times> MainService" where
  "executeQuery sql query_out startTime endTime s =
     (case client s of
        None \<Rightarrow> (Inl (new_Error (js ''No active database connection'')), s)
      | Some c \<Rightarrow>
          (let s1 = driver_call (ClientQuery c (UserSql sql)) s
           in case query_out of
                Inl e \<Rightarrow> (Inl e, s1)
              | Inr result \<Rightarrow> (Inr (normalize result (endTime - startTime)), s1)))"

text \<open>\<open>getSchemas\<close>: \<open>query_out\<close> answers the query with the \<open>schema_name\<close> column of
  its rows.\<close>

definition getSchemas ::
  "js_error + jsstring list \<Rightarrow> MainService \<Rightarrow> (js_error + jsstring list) \<times> MainService" where
  "getSchemas query_out s =
     (case client s of
        None \<Rightarrow> (Inl (new_Error (js ''No active database connection'')), s)
      | Some c \<Rightarrow> (query_out, driver_call (ClientQuery c SchemataQuery) s))"

text \<open>
  \<open>getTables\<close>: a row of either query has the columns \<open>name\<close> and \<open>type\<close>; \<open>type\<close> is
  SQL \<open>NULL\<close> where the \<open>CASE\<close> of the first query has no branch. \<open>tables_out\<close> and
  \<open>matview_out\<close> answer the two queries; the second is only sent when the first resolved.
\<close>

record RelationRow =
  rel_name :: jsstring
  rel_type :: "jsstring option"

definition getTables ::
  "jsstring \<Rightarrow> js_error + RelationRow list \<Rightarrow> js_error + RelationRow list \<Rightarrow> MainService
     \<Rightarrow> (js_error + RelationRow list) \<times> MainService" where
  "getTables schema tables_out matview_out s =
     (case client s of
        None \<Rightarrow> (Inl (new_Error (js ''No active database connection'')), s)
      | Some c \<Rightarrow>
          (let s1 = driver_call (ClientQuery c (TablesQuery schema)) s
           in case tables_out of
                Inl e \<Rightarrow> (Inl e, s1)
              | Inr result_rows \<Rightarrow>
                  (let s2 = driver_call (ClientQuery c (MatViewQuery schema)) s1
                   in case matview_out of
                        Inl e \<Rightarrow> (Inl e, s2)
                      | Inr matViewResult_rows \<Rightarrow>
                          (Inr (result_rows @ matViewResult_rows), s2))))"

text \<open>\<open>getTableColumns\<close>: \<open>query_out\<close> answers the query with its rows.\<close>

definition getTableColumns ::
  "jsstring \<Rightarrow> jsstring \<Rightarrow> js_error + json list \<Rightarrow> MainService
     \<Rightarrow> (js_error + json list) \<times> MainService" where
  "getTableColumns schema table query_out s =
     (case client s of
        None \<Rightarrow> (Inl (new_Error (js ''No active database connection'')), s)
      | Some c \<Rightarrow> (query_out, driver_call (ClientQuery c (ColumnsQuery schema table)) s))"

text \<open>
  What the server answers to the two statements of \<open>getTables\<close>, read off their SQL text:
  the rows of \<open>information_schema.tables\<close>, respectively \<open>pg_matviews\<close>, of the schema,
  ordered by the name column. Both name columns have the collation \<open>C\<close>, which compares
  code points; the model compares code units.
\<close>

record TablesRow =
  table_schema :: jsstring
  table_name :: jsstring
  table_type :: jsstring

record MatViewRow =
  schemaname :: jsstring
  matviewname :: jsstring

record Catalog =
  information_schema_tables :: "TablesRow list"
  pg_matviews :: "MatViewRow list"

definition tables_query :: "Catalog \<Rightarrow> jsstring \<Rightarrow> RelationRow list" where
  "tables_query cat schema =
     map (\<lambda>r. \<lparr>rel_name = table_name r,
                rel_type = (if table_type r = js ''BASE TABLE'' then Some (js ''table'')
                            else if table_type r = js ''VIEW'' then Some (js ''view'')
                            else None)\<rparr>)
       (sort_key table_name
          (filter (\<lambda>r. table_schema r = schema) (information_schema_tables cat)))"

definition matview_query :: "Catalog \<Rightarrow> jsstring \<Rightarrow> RelationRow list" where
  "matview_query cat schema =
     map (\<lambda>r. \<lparr>rel_name = matviewname r, rel_type = Some (js ''materialized_view'')\<rparr>)
       (sort_key matviewname (filter (\<lambda>r. schemaname r = schema) (pg_matviews cat)))"


text \<open>\<open>getTables\<close> against a server that holds the catalogue \<open>cat\<close> and answers both
  statements.\<close>

definition getTables_on ::
  "Catalog \<Rightarrow> jsstring \<Rightarrow> MainService \<Rightarrow> (js_error + RelationRow list) \<times> MainService" where
  "getTables_on cat schema s =
     getTables schema (Inr (tables_query cat schema)) (Inr (matview_query cat schema)) s"

subsection \<open>The handlers registered on the IPC channels\<close>

text \<open>
  One request to the main process, with the answers of the driver calls it makes. The
  requests of a window are handled one after the other. A \<open>call\<close> is a request to the
  session, which works on the client the service holds; \<open>testConnection\<close> works on a
  client of its own and is the other kind of \<open>request\<close>.
\<close>

datatype call =
    Connect "js_error + unit" "js_error + unit" PostgreSQLConnectionConfig
  | Disconnect "js_error + unit"
  | ExecuteQuery jsstring "js_error + PgQueryResult" int int
  | GetSchemas "js_error + jsstring list"
  | GetTables jsstring "js_error + RelationRow list" "js_error + RelationRow list"
  | GetTableColumns jsstring jsstring "js_error + json list"

fun handle_call :: "call \<Rightarrow> MainService \<Rightarrow> MainService" where
  "handle_call (Connect end_out connect_out cfg) s = snd (connect end_out connect_out cfg s)"
| "handle_call (Disconnect end_out) s = snd (disconnect end_out s)"
| "handle_call (ExecuteQuery sql query_out t0 t1) s = snd (executeQuery sql query_out t0 t1 s)"
| "handle_call (GetSchemas query_out) s = snd (getSchemas query_out s)"
| "handle_call (GetTables schema tables_out matview_out) s =
     snd (getTables schema tables_out matview_out s)"
| "handle_call (GetTableColumns schema table query_out) s =
     snd (getTableColumns schema table query_out s)"

fun handle_calls :: "call list \<Rightarrow> MainService \<Rightarrow> MainService" where
  "handle_calls [] s = s"
| "handle_calls (c # cs) s = handle_calls cs (handle_call c s)"

datatype request =
    SessionCall call
  | TestConnection "js_error + unit" "js_error + unit" "js_error + unit"
      PostgreSQLConnectionConfig

fun handle_request :: "request \<Rightarrow> MainService \<Rightarrow> MainService" where
  "handle_request (SessionCall c) s = handle_call c s"
| "handle_request (TestConnection connect_out query_out end_out cfg) s =
     snd (testConnection connect_out query_out end_out cfg s)"

fun handle_requests :: "request list \<Rightarrow> MainService \<Rightarrow> MainService" where
  "handle_requests [] s = s"
| "handle_requests (r # rs) s = handle_requests rs (handle_request r s)"

text \<open>A handle is opened by a \<open>connect()\<close> that resolves and closed by \<open>end()\<close>.\<close>

fun is_open :: "driver_event \<Rightarrow> bool" where
  "is_open (ClientConnect c ok) = ok"
| "is_open _ = False"

fun is_close :: "driver_event \<Rightarrow> bool" where
  "is_close (ClientEnd c) = True"
| "is_close _ = False"

definition handle_opens :: "MainService \<Rightarrow> nat" where
  "handle_opens s = length (filter is_open (driver_log s))"

definition handle_closes :: "MainService \<Rightarrow> nat" where
  "handle_closes s = length (filter is_close (driver_log s))"

definition live_handles :: "MainService \<Rightarrow> nat" where
  "live_handles s = (case client s of None \<Rightarrow> 0 | Some c \<Rightarrow> 1)"

text \<open>The clients that are open after the calls of a log: those whose \<open>connect()\<close> resolved
  and that were not sent \<open>end()\<close> since.\<close>

fun open_after :: "nat list \<Rightarrow> driver_event \<Rightarrow> nat list" where
  "open_after os (ClientConnect c ok) = (if ok then c # os else os)"
| "open_after os (ClientEnd c) = removeAll c os"
| "open_after os _ = os"

definition open_clients :: "MainService \<Rightarrow> nat list" where
  "open_clients s = foldl open_after [] (driver_log s)"

definition held_client :: "MainService \<Rightarrow> nat list" where
  "held_client s = (case client s of None \<Rightarrow> [] | Some c \<Rightarrow> [c])"

definition no_leak :: "MainService \<Rightarrow> bool" where
  "no_leak s =
     (open_clients s = held_client s \<and> list_all (\<lambda>c. c < allocated s) (held_client s))"


section \<open>The renderer process\<close>

subsection \<open>class PostgreSQLService of the renderer: postgresql.service.ts\<close>

text \<open>
  The two fields of the class, and the main process that \<open>window.databaseApi\<close> reaches.
  The transport between the processes is outside the model: a call through
  \<open>window.databaseApi\<close> is the call of the handler of its channel, and what the handler
  throws is what the call rejects with. The handlers of \<open>connect\<close> and \<open>testConnection\<close>
  catch every error, so the \<open>catch\<close> blocks of their callers in the renderer have no case
  here.
\<close>

record Session =
  connectionConfig_r :: "PostgreSQLConnectionConfig option"
  connected :: bool
  main :: MainService

definition initialSession :: Session where
  "initialSession = \<lparr>connectionConfig_r = None, connected = False, main = initialMain\<rparr>"

definition service_connect ::
  "js_error + unit \<Rightarrow> js_error + unit \<Rightarrow> PostgreSQLConnectionConfig \<Rightarrow> Session
     \<Rightarrow> ConnectionTestResult \<times> Session" where
  "service_connect end_out connect_out cfg r =
     (let (result, m) = connect end_out connect_out cfg (main r)
      in if success result
         then (result, r\<lparr>connectionConfig_r := Some cfg, connected := True, main := m\<rparr>)
         else (result, r\<lparr>connectionConfig_r := None, connected := False, main := m\<rparr>))"

definition service_testConnection ::
  "js_error + unit \<Rightarrow> js_error + unit \<Rightarrow> js_error + unit \<Rightarrow> PostgreSQLConnectionConfig
     \<Rightarrow> Session \<Rightarrow> ConnectionTestResult \<times> Session" where
  "service_testConnection connect_out query_out end_out cfg r =
     (let (result, m) = testConnection connect_out query_out end_out cfg (main r)
      in (result, r\<lparr>main := m\<rparr>))"

text \<open>\<open>try { await disconnect() } finally { ... }\<close>: the fields are cleared whatever the
  call answers, and the answer is passed on.\<close>

definition service_disconnect ::
  "js_error + unit \<Rightarrow> Session \<Rightarrow> (js_error + unit) \<times> Session" where
  "service_disconnect end_out r =
     (let (res, m) = disconnect end_out (main r)
      in (res, r\<lparr>connectionConfig_r := None, connected := False, main := m\<rparr>))"

definition service_executeQuery ::
  "jsstring \<Rightarrow> js_error + PgQueryResult \<Rightarrow> int \<Rightarrow> int \<Rightarrow> Session
     \<Rightarrow> (js_error + QueryResult) \<times> Session" where
  "service_executeQuery sql query_out startTime endTime r =
     (if \<not> connected r then (Inl (new_Error (js ''No active database connection'')), r)
      else (let (res, m) = executeQuery sql query_out startTime endTime (main r)
            in (res, r\<lparr>main := m\<rparr>)))"

definition service_getSchemas ::
  "js_error + jsstring list \<Rightarrow> Session \<Rightarrow> (js_error + jsstring list) \<times> Session" where
  "service_getSchemas query_out r =
     (if \<not> connected r then (Inl (new_Error (js ''No active database connection'')), r)
      else (let (res, m) = getSchemas query_out (main r)
            in (res, r\<lparr>main := m\<rparr>)))"

subsection \<open>The store: useDatabaseStore\<close>

text \<open>
  An object of the renderer with its identity: React compares the dependencies of an
  effect with \<open>Object.is\<close>, which on objects is the identity.
\<close>

datatype 'a obj = Obj (address: nat) (contents: 'a)

definition Object_is :: "'a obj option \<Rightarrow> 'a obj option \<Rightarrow> bool" where
  "Object_is a b =
     (case (a, b) of
        (None, None) \<Rightarrow> True
      | (Some x, Some y) \<Rightarrow> address x = address y
      | _ \<Rightarrow> False)"

record HistoryEntry =
  query :: jsstring
  timestamp :: jsstring

text \<open>
  The state of the store that the actions below read or write. The list of saved
  connections and the connection manager are left out: of the actions below only
  \<open>connectToDatabase\<close> reaches the manager, through \<open>updateLastUsed\<close>, which writes to
  \<open>localStorage\<close> alone; \<open>update_out\<close> says whether that call throws.
\<close>

record Store =
  selectedConnection :: "PostgreSQLConnectionConfig obj option"
  postgresqlService :: Session
  isConnected :: bool
  isConnecting :: bool
  connectionError :: "jsstring option"
  currentQuery :: jsstring
  queryHistory :: "HistoryEntry list"
  queryResult :: "QueryResult option"
  isExecutingQuery :: bool
  queryError :: "jsstring option"

definition initialStore :: Store where
  "initialStore =
     \<lparr>selectedConnection = None, postgresqlService = initialSession,
      isConnected = False, isConnecting = False, connectionError = None,
      currentQuery = [], queryHistory = [], queryResult = None,
      isExecutingQuery = False, queryError = None\<rparr>"

definition truthy :: "jsstring option \<Rightarrow> bool" where
  "truthy v = (case v of None \<Rightarrow> False | Some s \<Rightarrow> s \<noteq> [])"

definition connectToDatabase ::
  "js_error + unit \<Rightarrow> js_error + unit \<Rightarrow> js_error + unit \<Rightarrow> PostgreSQLConnectionConfig obj
     \<Rightarrow> Store \<Rightarrow> ConnectionTestResult \<times> Store" where
  "connectToDatabase end_out connect_out update_out connection st =
     (let st1 = st\<lparr>isConnecting := True, connectionError := None\<rparr>;
          (result, svc) =
             service_connect end_out connect_out (contents connection) (postgresqlService st1);
          st2 = st1\<lparr>postgresqlService := svc\<rparr>;
          (ret, st3) =
            (if success result then
               (case (if truthy (id_opt (contents connection)) then update_out else Inr ()) of
                  Inl e \<Rightarrow>
                    (\<lparr>success = False, message = err_message e, error = Some e\<rparr>,
                     st2\<lparr>isConnected := False, connectionError := Some (err_message e)\<rparr>)
                | Inr _ \<Rightarrow>
                    (result,
                     st2\<lparr>isConnected := True, connectionError := None,
                         selectedConnection := Some connection\<rparr>))
             else (result, st2\<lparr>isConnected := False, connectionError := Some (message result)\<rparr>))
      in (ret, st3\<lparr>isConnecting := False\<rparr>))"

definition disconnectFromDatabase ::
  "js_error + unit \<Rightarrow> Store \<Rightarrow> (js_error + unit) \<times> Store" where
  "disconnectFromDatabase end_out st =
     (let (res, svc) = service_disconnect end_out (postgresqlService st);
          st1 = st\<lparr>postgresqlService := svc\<rparr>
      in case res of
           Inl e \<Rightarrow> (Inl e, st1)
         | Inr _ \<Rightarrow>
             (Inr (), st1\<lparr>isConnected := False, connectionError := None,
                          queryResult := None, queryError := None\<rparr>))"

text \<open>\<open>addToQueryHistory\<close>: \<open>now\<close> is \<open>new Date().toISOString()\<close>.\<close>

definition addToQueryHistory :: "jsstring \<Rightarrow> jsstring \<Rightarrow> Store \<Rightarrow> Store" where
  "addToQueryHistory q now st =
     (if trim q = [] then st
      else st\<lparr>queryHistory := \<lparr>query = q, timestamp = now\<rparr> # take 49 (queryHistory st)\<rparr>)"

text \<open>
  \<open>executeQuery\<close> of the store. Its parameter is optional; \<open>query || currentQuery\<close> takes
  the text of the editor when the argument is absent or the empty string. \<open>null\<close> is
  \<open>None\<close>.
\<close>

definition store_executeQuery ::
  "jsstring option \<Rightarrow> js_error + PgQueryResult \<Rightarrow> int \<Rightarrow> int \<Rightarrow> jsstring \<Rightarrow> Store
     \<Rightarrow> QueryResult option \<times> Store" where
  "store_executeQuery q query_out startTime endTime now st =
     (let queryToExecute =
            (case q of
               None \<Rightarrow> currentQuery st
             | Some text \<Rightarrow> if text \<noteq> [] then text else currentQuery st)
      in if trim queryToExecute = [] then (None, st)
         else
           (let st1 = st\<lparr>isExecutingQuery := True, queryError := None\<rparr>;
                (res, svc) =
                   service_executeQuery queryToExecute query_out startTime endTime
                     (postgresqlService st1);
                st2 = st1\<lparr>postgresqlService := svc\<rparr>;
                (ret, st3) =
                  (case res of
                     Inr result \<Rightarrow>
                       (Some result,
                        addToQueryHistory queryToExecute now (st2\<lparr>queryResult := Some result\<rparr>))
                   | Inl e \<Rightarrow> (None, st2\<lparr>queryError := Some (err_message e)\<rparr>))
            in (ret, st3\<lparr>isExecutingQuery := False\<rparr>)))"

text \<open>\<open>run(sql)\<close> of the specification is the action called with the argument \<open>sql\<close>.\<close>

definition run ::
  "jsstring \<Rightarrow> js_error + PgQueryResult \<Rightarrow> int \<Rightarrow> int \<Rightarrow> jsstring \<Rightarrow> Store
     \<Rightarrow> QueryResult option \<times> Store" where
  "run sql = store_executeQuery (Some sql)"


text \<open>A sequence of calls of \<open>run\<close> that the driver answers with a result: the text, the
  answer, the two clock readings and the time stamp of each.\<close>

fun run_all ::
  "(jsstring \<times> PgQueryResult \<times> int \<times> int \<times> jsstring) list \<Rightarrow> Store \<Rightarrow> Store" where
  "run_all [] st = st"
| "run_all ((sql, result, startTime, endTime, now) # rs) st =
     run_all rs (snd (run sql (Inr result) startTime endTime now st))"

definition entry_of :: "jsstring \<times> PgQueryResult \<times> int \<times> int \<times> jsstring \<Rightarrow> HistoryEntry" where
  "entry_of r = (case r of (sql, result, startTime, endTime, now) \<Rightarrow> \<lparr>query = sql, timestamp = now\<rparr>)"

subsection \<open>The component SchemaExplorer\<close>

record TableTreeItem =
  table_item_name :: jsstring
  table_item_schema :: jsstring
  table_item_type :: jsstring

record SchemaTreeItem =
  schema_item_name :: jsstring
  schema_item_type :: jsstring
  expanded :: bool
  item_loading :: bool
  items :: "TableTreeItem list"

record Explorer =
  schemas :: "SchemaTreeItem list"
  loading :: bool
  error_text :: "jsstring option"

definition initialExplorer :: Explorer where
  "initialExplorer = \<lparr>schemas = [], loading = False, error_text = None\<rparr>"

definition schemaItem :: "jsstring \<Rightarrow> SchemaTreeItem" where
  "schemaItem n =
     \<lparr>schema_item_name = n, schema_item_type = js ''schema'', expanded = False,
      item_loading = False, items = []\<rparr>"

text \<open>\<open>loadSchemas\<close>: \<open>query_out\<close> answers the query of \<open>getSchemas\<close>. The \<open>catch\<close> sets
  the error text and leaves \<open>schemas\<close> as it is.\<close>

definition loadSchemas ::
  "js_error + jsstring list \<Rightarrow> Store \<Rightarrow> Explorer \<Rightarrow> Explorer \<times> Store" where
  "loadSchemas query_out st ex =
     (let ex1 = ex\<lparr>loading := True, error_text := None\<rparr>;
          (res, svc) = service_getSchemas query_out (postgresqlService st);
          ex2 = (case res of
                   Inr schemaNames \<Rightarrow> ex1\<lparr>schemas := map schemaItem schemaNames\<rparr>
                 | Inl err \<Rightarrow>
                     ex1\<lparr>error_text := Some (js ''Failed to load schemas: '' @ err_message err)\<rparr>)
      in (ex2\<lparr>loading := False\<rparr>, st\<lparr>postgresqlService := svc\<rparr>))"

text \<open>The body of the effect with the dependencies \<open>[isConnected, selectedConnection]\<close>.\<close>

definition schemaEffect ::
  "js_error + jsstring list \<Rightarrow> Store \<Rightarrow> Explorer \<Rightarrow> Explorer \<times> Store" where
  "schemaEffect query_out st ex =
     (if isConnected st \<and> selectedConnection st \<noteq> None then loadSchemas query_out st ex
      else (ex\<lparr>schemas := [], error_text := None\<rparr>, st))"

text \<open>A render after the store went from \<open>prev\<close> to \<open>st\<close>: React runs the effect when a
  dependency is not the same as at the previous render.\<close>

definition rerender ::
  "Store \<Rightarrow> js_error + jsstring list \<Rightarrow> Store \<Rightarrow> Explorer \<Rightarrow> Explorer \<times> Store" where
  "rerender prev query_out st ex =
     (if isConnected prev = isConnected st
         \<and> Object_is (selectedConnection prev) (selectedConnection st)
      then (ex, st)
      else schemaEffect query_out st ex)"

subsection \<open>class ConnectionManagerService: connection-manager.service.ts\<close>




section \<open>Sample data\<close>

definition profile_app :: PostgreSQLConnectionConfig where
  "profile_app =
     \<lparr>id_opt = Some (js ''c1''), name = js ''app'', host = js ''localhost'', port = 5432,
      database = js ''app'', username = js ''app'', password = js ''x'', ssl = False,
      savePassword = False, lastUsed = None\<rparr>"

definition profile_reports :: PostgreSQLConnectionConfig where
  "profile_reports =
     \<lparr>id_opt = Some (js ''c2''), name = js ''reports'', host = js ''db.internal'', port = 5433,
      database = js ''reports'', username = js ''ro'', password = js ''y'', ssl = True,
      savePassword = False, lastUsed = None\<rparr>"

definition select_one_result :: PgQueryResult where
  "select_one_result =
     \<lparr>pg_rows = [JObj [(js ''?column?'', JNum 1)]],
      pg_fields = [\<lparr>pg_name = js ''?column?'', pg_dataTypeID = 23\<rparr>],
      pg_rowCount = Some 1, pg_command = Some (js ''SELECT'')\<rparr>"

definition connection_lost :: js_error where
  "connection_lost = JsError True (js ''Connection terminated unexpectedly'')"

definition sample_calls :: "call list" where
  "sample_calls =
     [Connect (Inr ()) (Inr ()) profile_app,
      Connect (Inl (JsError False (js ''socket hang up''))) (Inr ()) profile_app,
      ExecuteQuery (js ''SELECT 1'') (Inl (JsError False (js ''syntax error''))) 0 5,
      Connect (Inr ()) (Inl (JsError False (js ''ECONNREFUSED''))) profile_app,
      Connect (Inr ()) (Inr ()) profile_app,
      Disconnect (Inr ())]"

definition sample_requests :: "request list" where
  "sample_requests =
     [SessionCall (Connect (Inr ()) (Inr ()) profile_app),
      TestConnection (Inl (JsError False (js ''ECONNREFUSED''))) (Inr ()) (Inr ()) profile_reports,
      TestConnection (Inr ()) (Inr ()) (Inr ()) profile_reports,
      SessionCall (Disconnect (Inr ()))]"

text \<open>The store after a successful connect with \<open>profile_app\<close>, with \<open>SELECT 1\<close> in the
  editor.\<close>

definition connectedStore :: Store where
  "connectedStore =
     snd (connectToDatabase (Inr ()) (Inr ()) (Inr ()) (Obj 1 profile_app)
            (initialStore\<lparr>currentQuery := js ''SELECT 1''\<rparr>))"

text \<open>Fifty-one runs of \<open>SELECT 1\<close>, the run \<open>i\<close> stamped with the digits of \<open>i\<close>.\<close>

definition fifty_one_runs :: "(jsstring \<times> PgQueryResult \<times> int \<times> int \<times> jsstring) list" where
  "fifty_one_runs =
     map (\<lambda>i. (js ''SELECT 1'', select_one_result, 0, 4, digits10 i)) [0..<51]"

text \<open>The main process after a successful connect with \<open>profile_app\<close>.\<close>

definition connectedMain :: MainService where
  "connectedMain = snd (connect (Inr ()) (Inr ()) profile_app initialMain)"


text \<open>
  Two connects in a row, each followed by the render of the explorer: the schema query after
  the first connect returns the schema \<open>sales\<close>, the one after the second connect is
  rejected.
\<close>

definition first_load :: "Explorer \<times> Store" where
  "first_load =
     rerender initialStore (Inr [js ''sales''])
       (snd (connectToDatabase (Inr ()) (Inr ()) (Inr ()) (Obj 1 profile_app) initialStore))
       initialExplorer"

definition second_connect :: Store where
  "second_connect =
     snd (connectToDatabase (Inr ()) (Inr ()) (Inr ()) (Obj 2 profile_reports) (snd first_load))"

definition second_load :: "Explorer \<times> Store" where
  "second_load =
     rerender (snd first_load) (Inl (JsError False (js ''permission denied''))) second_connect
       (fst first_load)"

definition sample_catalog :: Catalog where
  "sample_catalog =
     \<lparr>information_schema_tables =
        [\<lparr>table_schema = js ''public'', table_name = js ''users'', table_type = js ''BASE TABLE''\<rparr>,
         \<lparr>table_schema = js ''public'', table_name = js ''orders'', table_type = js ''BASE TABLE''\<rparr>,
         \<lparr>table_schema = js ''audit'', table_name = js ''events'', table_type = js ''BASE TABLE''\<rparr>],
      pg_matviews =
        [\<lparr>schemaname = js ''public'', matviewname = js ''daily_stats''\<rparr>]\<rparr>"


section \<open>The type catalogue is total\<close>

lemma typeMap_names_nonempty: "map_of typeMap k = Some n \<Longrightarrow> n \<noteq> []"
  by (auto simp: typeMap_def js_def split: if_splits)

lemma getDataTypeName_nonempty: "getDataTypeName typeId \<noteq> []"
proof (cases "map_of typeMap typeId")
  case None
  then show ?thesis by (simp add: getDataTypeName_def js_def)
next
  case (Some n)
  then have "n \<noteq> []" by (rule typeMap_names_nonempty)
  with Some show ?thesis by (simp add: getDataTypeName_def)
qed

text \<open>
  C9. \<open>getDataTypeName\<close> is a total function of the type identifier: for an identifier of
  the built-in table it returns the name listed there, for every other identifier the
  string \<open>unknown(<id>)\<close>, and the result is never the empty string. The Result Normalizer
  passes the identifiers of the driver on unchanged and gives every field the name that
  \<open>getDataTypeName\<close> returns for its identifier, which is not empty.
\<close>

theorem getDataTypeName_total:
  "(\<forall>n. map_of typeMap typeId = Some n \<longrightarrow> getDataTypeName typeId = n)
   \<and> (map_of typeMap typeId = None \<longrightarrow>
        getDataTypeName typeId = js ''unknown('' @ numberToString typeId @ js '')'')
   \<and> getDataTypeName typeId \<noteq> []
   \<and> map dataTypeID (fields_qr (normalize result dur)) = map pg_dataTypeID (pg_fields result)
   \<and> (\<forall>f\<in>set (fields_qr (normalize result dur)).
        dataType f = Some (getDataTypeName (dataTypeID f)) \<and> dataType f \<noteq> Some [])"
proof -
  have a: "\<forall>n. map_of typeMap typeId = Some n \<longrightarrow> getDataTypeName typeId = n"
    using typeMap_names_nonempty [of typeId] by (auto simp: getDataTypeName_def)
  have b: "map_of typeMap typeId = None \<longrightarrow>
        getDataTypeName typeId = js ''unknown('' @ numberToString typeId @ js '')''"
    by (simp add: getDataTypeName_def)
  have c: "map dataTypeID (fields_qr (normalize result dur)) = map pg_dataTypeID (pg_fields result)"
    by (simp add: normalize_def comp_def)
  have d: "\<forall>f\<in>set (fields_qr (normalize result dur)).
        dataType f = Some (getDataTypeName (dataTypeID f)) \<and> dataType f \<noteq> Some []"
    by (auto simp: normalize_def getDataTypeName_nonempty)
  from a b c d getDataTypeName_nonempty [of typeId] show ?thesis by blast
qed

theorem getDataTypeName_total_witness:
  "map_of typeMap 23 = Some (js ''integer'') \<and> getDataTypeName 23 = js ''integer''
   \<and> map_of typeMap 600 = None \<and> getDataTypeName 600 = js ''unknown(600)''
   \<and> getDataTypeName 600 \<noteq> []
   \<and> fields_qr (normalize select_one_result 4) =
       [\<lparr>field_name = js ''?column?'', dataTypeID = 23, dataType = Some (js ''integer'')\<rparr>]"
proof -
  have known: "map_of typeMap 23 = Some (js ''integer'')"
    by (simp add: typeMap_def)
  have unknown: "map_of typeMap 600 = None"
    by (simp add: typeMap_def)
  have digits: "numberToString 600 = js ''600''"
    by (simp add: numberToString_def digits10.simps js_def)
  from getDataTypeName_total [of 23] known
  have a: "getDataTypeName 23 = js ''integer''" by blast
  from getDataTypeName_total [of 600] unknown
  have b: "getDataTypeName 600 = js ''unknown('' @ numberToString 600 @ js '')''"
    and c: "getDataTypeName 600 \<noteq> []" by blast+
  from b digits have b': "getDataTypeName 600 = js ''unknown(600)''"
    by (simp add: js_def)
  have f: "fields_qr (normalize select_one_result 4) =
       [\<lparr>field_name = js ''?column?'', dataTypeID = 23, dataType = Some (js ''integer'')\<rparr>]"
    by (simp add: normalize_def select_one_result_def a)
  from known unknown a b' c f show ?thesis by blast
qed


section \<open>The session of the main process\<close>

lemmas main_defs = connect_def disconnect_def createClient_def driver_call_def console_error_def
  connect_failed_def executeQuery_def getSchemas_def getTables_def getTableColumns_def

lemma disconnect_twice:
  "disconnect end_out' (snd (disconnect end_out s)) = (Inr (), snd (disconnect end_out s))"
  by (simp add: disconnect_def Let_def split: option.splits)

lemma disconnect_returns: "fst (disconnect end_out s) = Inr ()"
  by (simp add: disconnect_def Let_def split: option.splits)

lemma connect_after_disconnect:
  "connect end_out' connect_out P (snd (disconnect end_out s)) = connect end_out connect_out P s"
proof -
  obtain s1 where d: "disconnect end_out s = (Inr (), s1)"
    using disconnect_returns [of end_out s] by (cases "disconnect end_out s") auto
  with disconnect_twice [of end_out' end_out s]
  have "disconnect end_out' s1 = (Inr (), s1)" by simp
  with d show ?thesis by (simp add: connect_def)
qed

lemma connect_log:
  "driver_log (snd (connect end_out connect_out P s)) =
     driver_log s @ (case client s of None \<Rightarrow> [] | Some c \<Rightarrow> [ClientEnd c])
       @ [NewClient (allocated s) (clientConfigOf P),
          ClientConnect (allocated s) (resolved connect_out)]"
  by (simp add: main_defs Let_def split: option.splits sum.splits)

text \<open>Every request keeps the balance: the handles opened are the handles closed and the
  one the service holds.\<close>

lemma balance_step:
  "handle_opens s = handle_closes s + live_handles s \<Longrightarrow>
   handle_opens (handle_call c s) = handle_closes (handle_call c s) + live_handles (handle_call c s)"
  by (cases c)
     (auto simp: main_defs handle_opens_def handle_closes_def live_handles_def resolved_def Let_def
           split: option.splits sum.splits)

lemma balance_calls:
  "handle_opens s = handle_closes s + live_handles s \<Longrightarrow>
   handle_opens (handle_calls cs s) =
     handle_closes (handle_calls cs s) + live_handles (handle_calls cs s)"
  by (induction cs arbitrary: s) (simp_all add: balance_step)

lemma balance_initial:
  "handle_opens initialMain = handle_closes initialMain + live_handles initialMain"
  by (simp add: initialMain_def handle_opens_def handle_closes_def live_handles_def)

text \<open>Every request, a test of a connection included, leaves open exactly the client that
  the service holds.\<close>

lemma driver_call_frame:
  "client (driver_call ev s) = client s"
  "allocated (driver_call ev s) = allocated s"
  by (simp_all add: driver_call_def)

lemma open_clients_call: "open_clients (driver_call ev s) = open_after (open_clients s) ev"
  by (simp add: open_clients_def driver_call_def)

lemma open_clients_frame:
  "open_clients (s\<lparr>client := x\<rparr>) = open_clients s"
  "open_clients (s\<lparr>config := y\<rparr>) = open_clients s"
  "open_clients (s\<lparr>connectionConfig := z\<rparr>) = open_clients s"
  "open_clients (s\<lparr>allocated := n\<rparr>) = open_clients s"
  "open_clients (s\<lparr>console := l\<rparr>) = open_clients s"
  by (simp_all add: open_clients_def)

lemmas leak_simps = driver_call_frame open_clients_call open_clients_frame no_leak_def
  held_client_def createClient_def console_error_def resolved_def Let_def

lemma no_leak_call: "no_leak s \<Longrightarrow> no_leak (handle_call c s)"
  by (cases c)
     (auto simp: leak_simps connect_def disconnect_def connect_failed_def executeQuery_def
        getSchemas_def getTables_def getTableColumns_def split: option.splits sum.splits)

lemma no_leak_request: "no_leak s \<Longrightarrow> no_leak (handle_request r s)"
proof (cases r)
  case (SessionCall c)
  assume "no_leak s"
  with SessionCall show ?thesis by (simp add: no_leak_call)
next
  case (TestConnection connect_out query_out end_out cfg)
  assume "no_leak s"
  with TestConnection show ?thesis
    by (auto simp: leak_simps testConnection_def split: option.splits sum.splits)
qed

lemma no_leak_requests: "no_leak s \<Longrightarrow> no_leak (handle_requests rs s)"
  by (induction rs arbitrary: s) (simp_all add: no_leak_request)

lemma no_leak_initial: "no_leak initialMain"
  by (simp add: no_leak_def open_clients_def held_client_def initialMain_def)

lemma open_clients_held:
  "open_clients (handle_requests rs initialMain) = held_client (handle_requests rs initialMain)"
  using no_leak_requests [OF no_leak_initial, of rs] by (simp add: no_leak_def)

text \<open>
  C1. \<open>connect\<close> is disconnect-then-connect: on every state and for every answer of the
  driver it gives the result and the state of \<open>connect\<close> run after \<open>disconnect\<close> (so a
  second \<open>connect(P)\<close> right after a first is a \<open>connect(P)\<close> preceded by \<open>disconnect()\<close>);
  the \<open>end()\<close> of the client held before is the first call it makes, ahead of the
  construction and the connect of the new client. Over every sequence of requests to the
  session from its initial state, the handles opened are the handles closed plus the one
  held, so a sequence that ends with no client held has closed as many handles as it
  opened. Over every sequence of requests of both kinds the clients left open are exactly
  the client held, so none is open when the sequence ends with no client held.
\<close>

theorem connect_tears_down_first:
  "connect end_out connect_out P s = connect end_out' connect_out P (snd (disconnect end_out s))
   \<and> driver_log (snd (connect end_out connect_out P s)) =
       driver_log s @ (case client s of None \<Rightarrow> [] | Some c \<Rightarrow> [ClientEnd c])
         @ [NewClient (allocated s) (clientConfigOf P),
            ClientConnect (allocated s) (resolved connect_out)]
   \<and> handle_opens (handle_calls cs initialMain) =
       handle_closes (handle_calls cs initialMain) + live_handles (handle_calls cs initialMain)
   \<and> (client (handle_calls cs initialMain) = None \<longrightarrow>
        handle_closes (handle_calls cs initialMain) = handle_opens (handle_calls cs initialMain))
   \<and> open_clients (handle_requests rs initialMain) = held_client (handle_requests rs initialMain)
   \<and> (client (handle_requests rs initialMain) = None \<longrightarrow>
        open_clients (handle_requests rs initialMain) = [])"
proof -
  have l: "open_clients (handle_requests rs initialMain) =
      held_client (handle_requests rs initialMain)"
    by (rule open_clients_held)
  then have l': "client (handle_requests rs initialMain) = None \<longrightarrow>
        open_clients (handle_requests rs initialMain) = []"
    by (simp add: held_client_def)
  have b: "handle_opens (handle_calls cs initialMain) =
       handle_closes (handle_calls cs initialMain) + live_handles (handle_calls cs initialMain)"
    by (rule balance_calls [OF balance_initial])
  then have "client (handle_calls cs initialMain) = None \<longrightarrow>
        handle_closes (handle_calls cs initialMain) = handle_opens (handle_calls cs initialMain)"
    by (simp add: live_handles_def)
  with b l l' connect_after_disconnect [of end_out' connect_out P end_out s]
    connect_log [of end_out connect_out P s]
  show ?thesis by simp
qed

lemma sample_calls_end: "client (handle_calls sample_calls initialMain) = None"
  by (simp add: sample_calls_def initialMain_def main_defs resolved_def Let_def)

lemma sample_requests_end: "client (handle_requests sample_requests initialMain) = None"
  by (simp add: sample_requests_def initialMain_def main_defs testConnection_def resolved_def
        Let_def)

theorem connect_tears_down_first_witness:
  "client (handle_calls sample_calls initialMain) = None
   \<and> handle_closes (handle_calls sample_calls initialMain) = 3
   \<and> handle_opens (handle_calls sample_calls initialMain) = 3
   \<and> client (handle_requests sample_requests initialMain) = None
   \<and> open_clients (handle_requests sample_requests initialMain) = []"
proof -
  have c: "handle_closes (handle_calls sample_calls initialMain) = 3"
    by (simp add: sample_calls_def initialMain_def main_defs resolved_def Let_def
          handle_closes_def)
  from connect_tears_down_first
         [of "Inr ()" "Inr ()" profile_app initialMain "Inr ()" sample_calls sample_requests]
    sample_calls_end sample_requests_end c
  show ?thesis by (simp add: held_client_def)
qed


section \<open>The query orchestrator: running a query from the store\<close>

lemmas service_defs = service_connect_def service_disconnect_def service_executeQuery_def
  service_getSchemas_def service_testConnection_def

lemma connectedStore_eval:
  "connectedStore =
     \<lparr>selectedConnection = Some (Obj 1 profile_app),
      postgresqlService =
        \<lparr>connectionConfig_r = Some profile_app, connected = True,
         main = \<lparr>client = Some 0, config = Some (clientConfigOf profile_app),
                 connectionConfig = Some profile_app, allocated = 1,
                 driver_log = [NewClient 0 (clientConfigOf profile_app), ClientConnect 0 True],
                 console = []\<rparr>\<rparr>,
      isConnected = True, isConnecting = False, connectionError = None,
      currentQuery = js ''SELECT 1'', queryHistory = [], queryResult = None,
      isExecutingQuery = False, queryError = None\<rparr>"
  by (simp add: connectedStore_def connectToDatabase_def service_defs main_defs initialStore_def
        initialSession_def initialMain_def resolved_def truthy_def profile_app_def js_def Let_def)

lemma trim_blank: "trim (js ''   '') = []" "trim [] = []" "trim (js ''SELECT 1'') \<noteq> []"
  by (simp_all add: trim_def js_def isWhiteSpace_def)

lemma js_nonempty: "js ''   '' \<noteq> []" "js ''SELECT 1'' \<noteq> []"
  by (simp_all add: js_def)

lemma run_blank:
  "trim (if sql = [] then currentQuery st else sql) = [] \<Longrightarrow>
   run sql query_out t0 t1 now st = (None, st)"
  by (cases "sql = []") (simp_all add: run_def store_executeQuery_def Let_def)

lemma run_not_connected:
  assumes "trim (if sql = [] then currentQuery st else sql) \<noteq> []"
    and "\<not> connected (postgresqlService st)"
  shows "run sql query_out t0 t1 now st =
           (None, st\<lparr>isExecutingQuery := False,
                    queryError := Some (js ''No active database connection'')\<rparr>)"
  using assms
  by (cases "sql = []")
     (simp_all add: run_def store_executeQuery_def service_executeQuery_def new_Error_def Let_def)

text \<open>
  C3, as the code has it. \<open>run(sql)\<close> executes \<open>sql\<close>, or the text of the editor when
  \<open>sql\<close> is the empty string. When that text trims to the empty string, \<open>run\<close> returns
  \<open>null\<close> and changes nothing: the session is not contacted. This holds for every
  non-empty \<open>sql\<close> that trims to the empty string. When the text is not blank and the
  session is not connected, \<open>run\<close> returns \<open>null\<close>, reports
  \<open>No active database connection\<close> as the query error, appends nothing to the history and
  does not reach the main process.
\<close>

theorem run_rejects_blank_and_disconnected:
  "(trim (if sql = [] then currentQuery st else sql) = [] \<longrightarrow>
      run sql query_out t0 t1 now st = (None, st))
   \<and> (sql \<noteq> [] \<and> trim sql = [] \<longrightarrow> run sql query_out t0 t1 now st = (None, st))
   \<and> (trim (if sql = [] then currentQuery st else sql) \<noteq> [] \<and> \<not> connected (postgresqlService st) \<longrightarrow>
        fst (run sql query_out t0 t1 now st) = None
        \<and> queryError (snd (run sql query_out t0 t1 now st)) =
            Some (js ''No active database connection'')
        \<and> queryHistory (snd (run sql query_out t0 t1 now st)) = queryHistory st
        \<and> postgresqlService (snd (run sql query_out t0 t1 now st)) = postgresqlService st)"
proof -
  have a: "trim (if sql = [] then currentQuery st else sql) = [] \<longrightarrow>
      run sql query_out t0 t1 now st = (None, st)"
    using run_blank by blast
  have b: "sql \<noteq> [] \<and> trim sql = [] \<longrightarrow> run sql query_out t0 t1 now st = (None, st)"
    using run_blank [of sql st] by simp
  have c: "trim (if sql = [] then currentQuery st else sql) \<noteq> [] \<and> \<not> connected (postgresqlService st) \<longrightarrow>
        fst (run sql query_out t0 t1 now st) = None
        \<and> queryError (snd (run sql query_out t0 t1 now st)) =
            Some (js ''No active database connection'')
        \<and> queryHistory (snd (run sql query_out t0 t1 now st)) = queryHistory st
        \<and> postgresqlService (snd (run sql query_out t0 t1 now st)) = postgresqlService st"
    using run_not_connected [of sql st query_out t0 t1 now] by simp
  from a b c show ?thesis by blast
qed

lemma run_empty_connected:
  "run [] (Inr select_one_result) 0 4 (js ''t1'') connectedStore =
     (Some (normalize select_one_result 4),
      connectedStore
        \<lparr>postgresqlService :=
           (postgresqlService connectedStore)
             \<lparr>main := driver_call (ClientQuery 0 (UserSql (js ''SELECT 1'')))
                        (main (postgresqlService connectedStore))\<rparr>,
         queryResult := Some (normalize select_one_result 4),
         queryHistory := [\<lparr>query = js ''SELECT 1'', timestamp = js ''t1''\<rparr>]\<rparr>)"
  by (simp add: connectedStore_eval run_def store_executeQuery_def service_executeQuery_def
        executeQuery_def addToQueryHistory_def driver_call_def trim_blank Let_def)

text \<open>
  C3 as stated fails for \<open>run("")\<close> with a non-blank text in the editor: the trimmed input
  is empty, but the call executes the text of the editor on the session and records it in
  the history, while \<open>run("   ")\<close> on the same store returns \<open>null\<close> and changes nothing.
\<close>

theorem run_empty_string_counterexample:
  "trim [] = []
   \<and> fst (run [] (Inr select_one_result) 0 4 (js ''t1'') connectedStore) \<noteq> None
   \<and> driver_log (main (postgresqlService
        (snd (run [] (Inr select_one_result) 0 4 (js ''t1'') connectedStore)))) =
      driver_log (main (postgresqlService connectedStore))
        @ [ClientQuery 0 (UserSql (js ''SELECT 1''))]
   \<and> queryHistory (snd (run [] (Inr select_one_result) 0 4 (js ''t1'') connectedStore)) =
        [\<lparr>query = js ''SELECT 1'', timestamp = js ''t1''\<rparr>]
   \<and> run (js ''   '') (Inr select_one_result) 0 4 (js ''t1'') connectedStore = (None, connectedStore)"
proof -
  have "run (js ''   '') (Inr select_one_result) 0 4 (js ''t1'') connectedStore = (None, connectedStore)"
    by (rule run_blank) (simp add: trim_blank js_nonempty)
  then show ?thesis
    by (simp add: run_empty_connected trim_blank driver_call_def)
qed

theorem run_rejects_blank_and_disconnected_witness:
  "run (js ''   '') (Inr select_one_result) 0 4 (js ''t1'') connectedStore = (None, connectedStore)
   \<and> run [] (Inr select_one_result) 0 4 (js ''t1'') initialStore = (None, initialStore)
   \<and> fst (run (js ''SELECT 1'') (Inr select_one_result) 0 4 (js ''t1'') initialStore) = None
   \<and> queryError (snd (run (js ''SELECT 1'') (Inr select_one_result) 0 4 (js ''t1'') initialStore)) =
        Some (js ''No active database connection'')
   \<and> queryHistory (snd (run (js ''SELECT 1'') (Inr select_one_result) 0 4 (js ''t1'') initialStore)) = []"
proof -
  have h1: "js ''   '' \<noteq> [] \<and> trim (js ''   '') = []"
    by (simp add: trim_blank js_nonempty)
  have h2: "trim (if ([]::jsstring) = [] then currentQuery initialStore else []) = []"
    by (simp add: initialStore_def trim_blank)
  have h3: "trim (if js ''SELECT 1'' = [] then currentQuery initialStore else js ''SELECT 1'') \<noteq> []
            \<and> \<not> connected (postgresqlService initialStore)"
    by (simp add: trim_blank js_nonempty initialStore_def initialSession_def)
  have h4: "queryHistory initialStore = []"
    by (simp add: initialStore_def)
  from run_rejects_blank_and_disconnected
         [of "js ''   ''" connectedStore "Inr select_one_result" 0 4 "js ''t1''"] h1
  have a: "run (js ''   '') (Inr select_one_result) 0 4 (js ''t1'') connectedStore = (None, connectedStore)"
    by blast
  from run_rejects_blank_and_disconnected
         [of "[]" initialStore "Inr select_one_result" 0 4 "js ''t1''"] h2
  have b: "run [] (Inr select_one_result) 0 4 (js ''t1'') initialStore = (None, initialStore)"
    by blast
  from run_rejects_blank_and_disconnected
         [of "js ''SELECT 1''" initialStore "Inr select_one_result" 0 4 "js ''t1''"] h3 h4
  have c: "fst (run (js ''SELECT 1'') (Inr select_one_result) 0 4 (js ''t1'') initialStore) = None
   \<and> queryError (snd (run (js ''SELECT 1'') (Inr select_one_result) 0 4 (js ''t1'') initialStore)) =
        Some (js ''No active database connection'')
   \<and> queryHistory (snd (run (js ''SELECT 1'') (Inr select_one_result) 0 4 (js ''t1'') initialStore)) = []"
    by simp
  from a b c show ?thesis by blast
qed


lemma run_success:
  assumes "connected (postgresqlService st)" and "client (main (postgresqlService st)) = Some c"
    and "trim sql \<noteq> []"
  shows "run sql (Inr result) t0 t1 now st =
     (Some (normalize result (t1 - t0)),
      st\<lparr>postgresqlService :=
           (postgresqlService st)
             \<lparr>main := driver_call (ClientQuery c (UserSql sql)) (main (postgresqlService st))\<rparr>,
         queryError := None,
         queryResult := Some (normalize result (t1 - t0)),
         queryHistory := \<lparr>query = sql, timestamp = now\<rparr> # take 49 (queryHistory st),
         isExecutingQuery := False\<rparr>)"
proof -
  from assms(3) have "sql \<noteq> []" by (auto simp: trim_def)
  with assms show ?thesis
    by (simp add: run_def store_executeQuery_def service_executeQuery_def executeQuery_def
          addToQueryHistory_def Let_def)
qed

lemma run_rejected:
  "fst (run sql (Inl e) t0 t1 now st) = None"
  by (simp add: run_def store_executeQuery_def service_executeQuery_def executeQuery_def Let_def
        split: option.splits prod.splits)

lemma run_none_frame:
  assumes "fst (run sql query_out t0 t1 now st) = None"
  shows "queryHistory (snd (run sql query_out t0 t1 now st)) = queryHistory st
    \<and> connected (postgresqlService (snd (run sql query_out t0 t1 now st))) =
        connected (postgresqlService st)
    \<and> connectionConfig_r (postgresqlService (snd (run sql query_out t0 t1 now st))) =
        connectionConfig_r (postgresqlService st)
    \<and> client (main (postgresqlService (snd (run sql query_out t0 t1 now st)))) =
        client (main (postgresqlService st))
    \<and> isConnected (snd (run sql query_out t0 t1 now st)) = isConnected st
    \<and> selectedConnection (snd (run sql query_out t0 t1 now st)) = selectedConnection st"
  using assms
  by (auto simp: run_def store_executeQuery_def service_executeQuery_def executeQuery_def
        driver_call_def Let_def split: option.splits sum.splits if_splits)

text \<open>
  C4, as the code has it. A \<open>run\<close> whose query the driver rejects returns \<open>null\<close>, with
  whatever error the driver gives, an error for a lost connection included. Every \<open>run\<close>
  that returns \<open>null\<close> leaves the history as it was and leaves the connectivity of the
  session as it was: the flag and the profile of the renderer service, the client of the
  main process, and the flag and the selected connection of the store.
\<close>

theorem failed_run_keeps_history_and_connectivity:
  "fst (run sql (Inl e) t0 t1 now st) = None
   \<and> (fst (run sql query_out t0 t1 now st) = None \<longrightarrow>
        queryHistory (snd (run sql query_out t0 t1 now st)) = queryHistory st
        \<and> connected (postgresqlService (snd (run sql query_out t0 t1 now st))) =
            connected (postgresqlService st)
        \<and> connectionConfig_r (postgresqlService (snd (run sql query_out t0 t1 now st))) =
            connectionConfig_r (postgresqlService st)
        \<and> client (main (postgresqlService (snd (run sql query_out t0 t1 now st)))) =
            client (main (postgresqlService st))
        \<and> isConnected (snd (run sql query_out t0 t1 now st)) = isConnected st
        \<and> selectedConnection (snd (run sql query_out t0 t1 now st)) = selectedConnection st)"
  using run_rejected [of sql e t0 t1 now st] run_none_frame [of sql query_out t0 t1 now st]
  by blast

lemma run_lost_connected:
  "run (js ''SELECT 1'') (Inl connection_lost) 0 4 (js ''t1'') connectedStore =
     (None,
      connectedStore
        \<lparr>postgresqlService :=
           (postgresqlService connectedStore)
             \<lparr>main := driver_call (ClientQuery 0 (UserSql (js ''SELECT 1'')))
                        (main (postgresqlService connectedStore))\<rparr>,
         queryError := Some (js ''Connection terminated unexpectedly'')\<rparr>)"
  by (simp add: connectedStore_eval run_def store_executeQuery_def service_executeQuery_def
        executeQuery_def driver_call_def trim_blank js_nonempty connection_lost_def Let_def)

text \<open>
  C4 as stated fails where the driver reports the connection as lost: the session stays
  connected in both processes, and the next \<open>run\<close> is sent to the driver again and
  returns its result instead of reporting that there is no connection.
\<close>

theorem severed_transport_counterexample:
  "transport_severed connection_lost
   \<and> fst (run (js ''SELECT 1'') (Inl connection_lost) 0 4 (js ''t1'') connectedStore) = None
   \<and> connected (postgresqlService
        (snd (run (js ''SELECT 1'') (Inl connection_lost) 0 4 (js ''t1'') connectedStore)))
   \<and> isConnected (snd (run (js ''SELECT 1'') (Inl connection_lost) 0 4 (js ''t1'') connectedStore))
   \<and> client (main (postgresqlService
        (snd (run (js ''SELECT 1'') (Inl connection_lost) 0 4 (js ''t1'') connectedStore)))) = Some 0
   \<and> fst (run (js ''SELECT 1'') (Inr select_one_result) 5 9 (js ''t2'')
        (snd (run (js ''SELECT 1'') (Inl connection_lost) 0 4 (js ''t1'') connectedStore))) =
      Some (normalize select_one_result 4)"
proof -
  have a: "transport_severed connection_lost" by (simp add: connection_lost_def)
  have b: "connected (postgresqlService connectedStore)" "isConnected connectedStore"
    "client (main (postgresqlService connectedStore)) = Some 0"
    by (simp_all add: connectedStore_eval)
  have c: "fst (run (js ''SELECT 1'') (Inr select_one_result) 5 9 (js ''t2'')
        (snd (run (js ''SELECT 1'') (Inl connection_lost) 0 4 (js ''t1'') connectedStore))) =
      Some (normalize select_one_result 4)"
    by (subst run_success [where c = 0])
       (simp_all add: run_lost_connected b driver_call_def trim_blank)
  from a b c show ?thesis
    by (simp add: run_lost_connected driver_call_def)
qed

theorem failed_run_keeps_history_and_connectivity_witness:
  "fst (run (js ''SELECT 1'') (Inl connection_lost) 0 4 (js ''t1'') connectedStore) = None
   \<and> queryHistory (snd (run (js ''SELECT 1'') (Inl connection_lost) 0 4 (js ''t1'') connectedStore)) = []
   \<and> connected (postgresqlService
        (snd (run (js ''SELECT 1'') (Inl connection_lost) 0 4 (js ''t1'') connectedStore)))
   \<and> client (main (postgresqlService
        (snd (run (js ''SELECT 1'') (Inl connection_lost) 0 4 (js ''t1'') connectedStore)))) = Some 0"
proof -
  have b: "connected (postgresqlService connectedStore)" "queryHistory connectedStore = []"
    "client (main (postgresqlService connectedStore)) = Some 0"
    by (simp_all add: connectedStore_eval)
  from failed_run_keeps_history_and_connectivity
         [of "js ''SELECT 1''" connection_lost 0 4 "js ''t1''" connectedStore "Inl connection_lost"]
    b
  show ?thesis by simp
qed


lemma take_front_insert:
  "take 50 (xs @ e # take 49 h) = take 50 (xs @ e # h)"
  by (simp add: take_Cons' min_def)

lemma run_all_history:
  "connected (postgresqlService st) \<Longrightarrow> client (main (postgresqlService st)) = Some c \<Longrightarrow>
   length (queryHistory st) \<le> 50 \<Longrightarrow>
   \<forall>r\<in>set rs. trim (fst r) \<noteq> [] \<Longrightarrow>
   queryHistory (run_all rs st) = take 50 (rev (map entry_of rs) @ queryHistory st)"
proof (induction rs arbitrary: st)
  case Nil
  then show ?case by simp
next
  case (Cons r rs)
  obtain sql result t0 t1 now where r: "r = (sql, result, t0, t1, now)"
    by (cases r) auto
  let ?st' = "snd (run sql (Inr result) t0 t1 now st)"
  from Cons.prems r have nb: "trim sql \<noteq> []" by simp
  note step = run_success [OF Cons.prems(1) Cons.prems(2) nb, of result t0 t1 now]
  have c': "connected (postgresqlService ?st')"
    and m': "client (main (postgresqlService ?st')) = Some c"
    and h': "queryHistory ?st' = \<lparr>query = sql, timestamp = now\<rparr> # take 49 (queryHistory st)"
    using Cons.prems(1,2) by (simp_all add: step driver_call_def)
  from h' have l': "length (queryHistory ?st') \<le> 50" by simp
  from Cons.prems(4) have "\<forall>r\<in>set rs. trim (fst r) \<noteq> []" by simp
  from Cons.IH [OF c' m' l' this]
  have "queryHistory (run_all rs ?st') = take 50 (rev (map entry_of rs) @ queryHistory ?st')" .
  also have "\<dots> = take 50 (rev (map entry_of rs) @ entry_of r # queryHistory st)"
    by (simp only: h' take_front_insert) (simp add: r entry_of_def)
  finally show ?case by (simp add: r)
qed

text \<open>
  C5. The query history is a bounded log with insertion at the front. On a connected
  session with at most 50 entries in the history, every successful \<open>run\<close> of a non-blank
  text puts its entry in front of the first 49 entries of the history, which drops the
  oldest of 50. After any sequence of such runs the history is the first 50 entries of the
  runs in reverse order followed by the old history: it never has more than 50 entries,
  it is most recent first, and it has exactly 50 entries once 50 or more are there to keep,
  as after 51 runs on an empty history.
\<close>

theorem history_is_bounded_front_log:
  assumes "connected (postgresqlService st)"
    and "client (main (postgresqlService st)) \<noteq> None"
    and "length (queryHistory st) \<le> 50"
    and "\<forall>r\<in>set rs. trim (fst r) \<noteq> []"
  shows "queryHistory (run_all rs st) = take 50 (rev (map entry_of rs) @ queryHistory st)
    \<and> length (queryHistory (run_all rs st)) \<le> 50
    \<and> (50 \<le> length rs + length (queryHistory st) \<longrightarrow> length (queryHistory (run_all rs st)) = 50)
    \<and> (trim sql \<noteq> [] \<longrightarrow>
         queryHistory (snd (run sql (Inr result) t0 t1 now st)) =
           \<lparr>query = sql, timestamp = now\<rparr> # take 49 (queryHistory st))
    \<and> (trim sql \<noteq> [] \<and> length (queryHistory st) = 50 \<longrightarrow>
         queryHistory (snd (run sql (Inr result) t0 t1 now st)) =
           \<lparr>query = sql, timestamp = now\<rparr> # butlast (queryHistory st))"
proof -
  from assms(2) obtain c where c: "client (main (postgresqlService st)) = Some c" by auto
  have h: "queryHistory (run_all rs st) = take 50 (rev (map entry_of rs) @ queryHistory st)"
    by (rule run_all_history [OF assms(1) c assms(3) assms(4)])
  have one: "trim sql \<noteq> [] \<longrightarrow>
         queryHistory (snd (run sql (Inr result) t0 t1 now st)) =
           \<lparr>query = sql, timestamp = now\<rparr> # take 49 (queryHistory st)"
    by (simp add: run_success [OF assms(1) c])
  have "length (queryHistory st) = 50 \<longrightarrow> take 49 (queryHistory st) = butlast (queryHistory st)"
    by (simp add: butlast_conv_take)
  with one have full: "trim sql \<noteq> [] \<and> length (queryHistory st) = 50 \<longrightarrow>
         queryHistory (snd (run sql (Inr result) t0 t1 now st)) =
           \<lparr>query = sql, timestamp = now\<rparr> # butlast (queryHistory st)"
    by simp
  have "length (queryHistory (run_all rs st)) = min (length rs + length (queryHistory st)) 50"
    by (simp only: h length_take length_append length_rev length_map)
  then have "length (queryHistory (run_all rs st)) \<le> 50"
    and "50 \<le> length rs + length (queryHistory st) \<longrightarrow> length (queryHistory (run_all rs st)) = 50"
    by arith+
  with h one full show ?thesis by blast
qed

theorem history_is_bounded_front_log_witness:
  "length fifty_one_runs = 51
   \<and> length (queryHistory (run_all fifty_one_runs connectedStore)) = 50
   \<and> hd (queryHistory (run_all fifty_one_runs connectedStore)) =
       \<lparr>query = js ''SELECT 1'', timestamp = js ''50''\<rparr>
   \<and> last (queryHistory (run_all fifty_one_runs connectedStore)) =
       \<lparr>query = js ''SELECT 1'', timestamp = js ''1''\<rparr>"
proof -
  have pre: "connected (postgresqlService connectedStore)"
    "client (main (postgresqlService connectedStore)) \<noteq> None"
    "length (queryHistory connectedStore) \<le> 50" "queryHistory connectedStore = []"
    by (simp_all add: connectedStore_eval)
  have nb: "\<forall>r\<in>set fifty_one_runs. trim (fst r) \<noteq> []"
    by (simp add: fifty_one_runs_def trim_blank)
  have len: "length fifty_one_runs = 51" by (simp add: fifty_one_runs_def)
  have split: "[0..<51] = 0 # [1..<50] @ [50]"
    by (simp add: upt_conv_Cons)
  have rev_runs: "rev (map entry_of fifty_one_runs) =
      \<lparr>query = js ''SELECT 1'', timestamp = digits10 50\<rparr>
        # rev (map (\<lambda>i. \<lparr>query = js ''SELECT 1'', timestamp = digits10 i\<rparr>) [1..<50])
        @ [\<lparr>query = js ''SELECT 1'', timestamp = digits10 0\<rparr>]"
    by (simp only: fifty_one_runs_def split) (simp add: entry_of_def comp_def)
  have d: "digits10 50 = js ''50''" "digits10 1 = js ''1''"
    by (simp_all add: digits10.simps js_def)
  from history_is_bounded_front_log [OF pre(1) pre(2) pre(3) nb]
  have h: "queryHistory (run_all fifty_one_runs connectedStore) =
      take 50 (rev (map entry_of fifty_one_runs) @ queryHistory connectedStore)"
    by blast
  have t: "take 50 (rev (map entry_of fifty_one_runs)) =
      \<lparr>query = js ''SELECT 1'', timestamp = digits10 50\<rparr>
        # rev (map (\<lambda>i. \<lparr>query = js ''SELECT 1'', timestamp = digits10 i\<rparr>) [1..<50])"
    by (simp add: rev_runs)
  have l: "last (rev (map (\<lambda>i. \<lparr>query = js ''SELECT 1'', timestamp = digits10 i\<rparr>) [1..<50])) =
      \<lparr>query = js ''SELECT 1'', timestamp = digits10 1\<rparr>"
    by (simp add: last_rev hd_map upt_conv_Cons)
  from h pre(4) t l d len show ?thesis by simp
qed


section \<open>Disconnecting and testing a connection\<close>

lemma service_disconnect_eval:
  "service_disconnect end_out r =
     (Inr (), r\<lparr>connectionConfig_r := None, connected := False,
                main := snd (disconnect end_out (main r))\<rparr>)"
  by (simp add: service_disconnect_def disconnect_def Let_def split: option.splits)

text \<open>
  C7. \<open>disconnect()\<close> always returns normally, whatever \<open>end()\<close> answers. It leaves the
  service of the renderer not connected with no profile, and the main process with no
  client. A client held before is sent \<open>end()\<close>, and the error of an \<open>end()\<close> that rejects
  is written to the console and goes no further. A second \<open>disconnect()\<close> returns normally
  and changes nothing. The action of the store built on it leaves the store not connected.
\<close>

theorem disconnect_idempotent_and_swallows:
  "fst (service_disconnect end_out r) = Inr ()
   \<and> connected (snd (service_disconnect end_out r)) = False
   \<and> connectionConfig_r (snd (service_disconnect end_out r)) = None
   \<and> client (main (snd (service_disconnect end_out r))) = None
   \<and> config (main (snd (service_disconnect end_out r))) =
       (case client (main r) of None \<Rightarrow> config (main r) | Some c \<Rightarrow> None)
   \<and> driver_log (main (snd (service_disconnect end_out r))) =
       driver_log (main r) @ (case client (main r) of None \<Rightarrow> [] | Some c \<Rightarrow> [ClientEnd c])
   \<and> console (main (snd (service_disconnect end_out r))) =
       console (main r)
         @ (case client (main r) of
              None \<Rightarrow> []
            | Some c \<Rightarrow>
                (case end_out of
                   Inl e \<Rightarrow> [(js ''Error during disconnect:'', e)]
                 | Inr u \<Rightarrow> []))
   \<and> service_disconnect end_out' (snd (service_disconnect end_out r)) =
       (Inr (), snd (service_disconnect end_out r))
   \<and> fst (disconnectFromDatabase end_out st) = Inr ()
   \<and> isConnected (snd (disconnectFromDatabase end_out st)) = False
   \<and> postgresqlService (snd (disconnectFromDatabase end_out st)) =
       snd (service_disconnect end_out (postgresqlService st))"
proof -
  have twice: "service_disconnect end_out' (snd (service_disconnect end_out r)) =
       (Inr (), snd (service_disconnect end_out r))"
    by (simp add: service_disconnect_eval disconnect_twice)
  have store: "fst (disconnectFromDatabase end_out st) = Inr ()
   \<and> isConnected (snd (disconnectFromDatabase end_out st)) = False
   \<and> postgresqlService (snd (disconnectFromDatabase end_out st)) =
       snd (service_disconnect end_out (postgresqlService st))"
    by (simp add: disconnectFromDatabase_def service_disconnect_eval Let_def)
  have sess: "fst (service_disconnect end_out r) = Inr ()
   \<and> connected (snd (service_disconnect end_out r)) = False
   \<and> connectionConfig_r (snd (service_disconnect end_out r)) = None"
    by (simp add: service_disconnect_eval)
  have m: "client (main (snd (service_disconnect end_out r))) = None
   \<and> config (main (snd (service_disconnect end_out r))) =
       (case client (main r) of None \<Rightarrow> config (main r) | Some c \<Rightarrow> None)
   \<and> driver_log (main (snd (service_disconnect end_out r))) =
       driver_log (main r) @ (case client (main r) of None \<Rightarrow> [] | Some c \<Rightarrow> [ClientEnd c])
   \<and> console (main (snd (service_disconnect end_out r))) =
       console (main r)
         @ (case client (main r) of
              None \<Rightarrow> []
            | Some c \<Rightarrow>
                (case end_out of
                   Inl e \<Rightarrow> [(js ''Error during disconnect:'', e)]
                 | Inr u \<Rightarrow> []))"
    by (simp add: service_disconnect_eval disconnect_def driver_call_def console_error_def Let_def
          split: option.splits sum.splits)
  from twice store sess m show ?thesis by blast
qed

text \<open>
  C6. After a connect with one profile, \<open>testConnection\<close> with another profile constructs
  a client of its own, sends it \<open>end()\<close> whether the test succeeds or fails, and leaves the
  client of the session alone; but, through \<open>createClient\<close>, it overwrites the fields
  \<open>config\<close> and \<open>connectionConfig\<close> of the session with the profile under test.
\<close>

theorem testConnection_overwrites_config:
  "client (snd (connect (Inr ()) (Inr ()) profile_app initialMain)) = Some 0
   \<and> config (snd (connect (Inr ()) (Inr ()) profile_app initialMain)) =
       Some (clientConfigOf profile_app)
   \<and> connectionConfig (snd (connect (Inr ()) (Inr ()) profile_app initialMain)) =
       Some profile_app
   \<and> client (snd (testConnection connect_out query_out end_out profile_reports
        (snd (connect (Inr ()) (Inr ()) profile_app initialMain)))) = Some 0
   \<and> last (driver_log (snd (testConnection connect_out query_out end_out profile_reports
        (snd (connect (Inr ()) (Inr ()) profile_app initialMain))))) = ClientEnd 1
   \<and> config (snd (testConnection connect_out query_out end_out profile_reports
        (snd (connect (Inr ()) (Inr ()) profile_app initialMain)))) =
       Some (clientConfigOf profile_reports)
   \<and> connectionConfig (snd (testConnection connect_out query_out end_out profile_reports
        (snd (connect (Inr ()) (Inr ()) profile_app initialMain)))) =
       Some profile_reports
   \<and> clientConfigOf profile_reports \<noteq> clientConfigOf profile_app
   \<and> profile_reports \<noteq> profile_app"
proof -
  have s: "snd (connect (Inr ()) (Inr ()) profile_app initialMain) =
      \<lparr>client = Some 0, config = Some (clientConfigOf profile_app),
       connectionConfig = Some profile_app, allocated = 1,
       driver_log = [NewClient 0 (clientConfigOf profile_app), ClientConnect 0 True],
       console = []\<rparr>"
    by (simp add: main_defs initialMain_def resolved_def Let_def)
  have d: "clientConfigOf profile_reports \<noteq> clientConfigOf profile_app"
    "profile_reports \<noteq> profile_app"
    by (simp_all add: clientConfigOf_def profile_reports_def profile_app_def)
  have t: "client (snd (testConnection connect_out query_out end_out profile_reports
        (snd (connect (Inr ()) (Inr ()) profile_app initialMain)))) = Some 0
   \<and> last (driver_log (snd (testConnection connect_out query_out end_out profile_reports
        (snd (connect (Inr ()) (Inr ()) profile_app initialMain))))) = ClientEnd 1
   \<and> config (snd (testConnection connect_out query_out end_out profile_reports
        (snd (connect (Inr ()) (Inr ()) profile_app initialMain)))) =
       Some (clientConfigOf profile_reports)
   \<and> connectionConfig (snd (testConnection connect_out query_out end_out profile_reports
        (snd (connect (Inr ()) (Inr ()) profile_app initialMain)))) =
       Some profile_reports"
    by (simp add: s testConnection_def createClient_def driver_call_def console_error_def Let_def
          split: sum.splits)
  from s d t show ?thesis by simp
qed


section \<open>Listing the relations of a schema\<close>

lemma connectedMain_client: "client connectedMain = Some 0"
  by (simp add: connectedMain_def main_defs initialMain_def resolved_def Let_def)

lemma tables_query_sorted: "sorted (map rel_name (tables_query cat schema))"
proof -
  have "map rel_name (tables_query cat schema) =
      map table_name (sort_key table_name
        (filter (\<lambda>r. table_schema r = schema) (information_schema_tables cat)))"
    by (simp add: tables_query_def comp_def)
  then show ?thesis by simp
qed

lemma matview_query_sorted: "sorted (map rel_name (matview_query cat schema))"
proof -
  have "map rel_name (matview_query cat schema) =
      map matviewname (sort_key matviewname
        (filter (\<lambda>r. schemaname r = schema) (pg_matviews cat)))"
    by (simp add: matview_query_def comp_def)
  then show ?thesis by simp
qed

lemma tables_query_types:
  "r \<in> set (tables_query cat schema) \<Longrightarrow> rel_type r \<noteq> Some (js ''materialized_view'')"
  by (auto simp: tables_query_def js_def split: if_splits)

lemma matview_query_types:
  "r \<in> set (matview_query cat schema) \<Longrightarrow> rel_type r = Some (js ''materialized_view'')"
  by (auto simp: matview_query_def)

text \<open>
  C8, as the code has it. On a connected session and a server that answers both queries,
  \<open>getTables(S)\<close> sends the two queries and returns the rows of the ordinary tables and
  views of \<open>S\<close>, ordered by name, followed by the rows of the materialized views of \<open>S\<close>,
  ordered by name: the rows are those of the two answers together, and no row of the
  first part is a materialized view while every row of the second part is one.
\<close>

theorem getTables_concatenates:
  "client s = Some c \<longrightarrow>
     fst (getTables_on cat schema s) = Inr (tables_query cat schema @ matview_query cat schema)
     \<and> driver_log (snd (getTables_on cat schema s)) =
         driver_log s @ [ClientQuery c (TablesQuery schema), ClientQuery c (MatViewQuery schema)]
     \<and> sorted (map rel_name (tables_query cat schema))
     \<and> sorted (map rel_name (matview_query cat schema))
     \<and> (\<forall>r\<in>set (tables_query cat schema). rel_type r \<noteq> Some (js ''materialized_view''))
     \<and> (\<forall>r\<in>set (matview_query cat schema). rel_type r = Some (js ''materialized_view''))"
  using tables_query_sorted [of cat schema] matview_query_sorted [of cat schema]
    tables_query_types [of _ cat schema] matview_query_types [of _ cat schema]
  by (auto simp: getTables_on_def getTables_def driver_call_def Let_def)

lemma sample_tables: "tables_query sample_catalog (js ''public'') =
   [\<lparr>rel_name = js ''orders'', rel_type = Some (js ''table'')\<rparr>,
    \<lparr>rel_name = js ''users'', rel_type = Some (js ''table'')\<rparr>]"
  by (simp add: tables_query_def sample_catalog_def js_def)

lemma sample_matviews: "matview_query sample_catalog (js ''public'') =
   [\<lparr>rel_name = js ''daily_stats'', rel_type = Some (js ''materialized_view'')\<rparr>]"
  by (simp add: matview_query_def sample_catalog_def js_def)

text \<open>
  C8 as stated fails on a schema with the tables \<open>orders\<close> and \<open>users\<close> and the
  materialized view \<open>daily_stats\<close>: the view comes last, after \<open>users\<close>.
\<close>

theorem getTables_not_ordered_counterexample:
  "fst (getTables_on sample_catalog (js ''public'') connectedMain) =
     Inr [\<lparr>rel_name = js ''orders'', rel_type = Some (js ''table'')\<rparr>,
          \<lparr>rel_name = js ''users'', rel_type = Some (js ''table'')\<rparr>,
          \<lparr>rel_name = js ''daily_stats'', rel_type = Some (js ''materialized_view'')\<rparr>]
   \<and> \<not> sorted (map rel_name
          [\<lparr>rel_name = js ''orders'', rel_type = Some (js ''table'')\<rparr>,
           \<lparr>rel_name = js ''users'', rel_type = Some (js ''table'')\<rparr>,
           \<lparr>rel_name = js ''daily_stats'', rel_type = Some (js ''materialized_view'')\<rparr>])
   \<and> js ''daily_stats'' < js ''users''"
proof -
  have a: "fst (getTables_on sample_catalog (js ''public'') connectedMain) =
     Inr [\<lparr>rel_name = js ''orders'', rel_type = Some (js ''table'')\<rparr>,
          \<lparr>rel_name = js ''users'', rel_type = Some (js ''table'')\<rparr>,
          \<lparr>rel_name = js ''daily_stats'', rel_type = Some (js ''materialized_view'')\<rparr>]"
    by (simp add: getTables_on_def getTables_def connectedMain_client sample_tables
          sample_matviews Let_def)
  have b: "js ''daily_stats'' < js ''users''" by (simp add: js_def)
  then have "\<not> js ''users'' \<le> js ''daily_stats''" by simp
  then have c: "\<not> sorted (map rel_name
          [\<lparr>rel_name = js ''orders'', rel_type = Some (js ''table'')\<rparr>,
           \<lparr>rel_name = js ''users'', rel_type = Some (js ''table'')\<rparr>,
           \<lparr>rel_name = js ''daily_stats'', rel_type = Some (js ''materialized_view'')\<rparr>])"
    by simp
  from a b c show ?thesis by blast
qed

theorem getTables_concatenates_witness:
  "client connectedMain = Some 0
   \<and> fst (getTables_on sample_catalog (js ''public'') connectedMain) =
       Inr [\<lparr>rel_name = js ''orders'', rel_type = Some (js ''table'')\<rparr>,
            \<lparr>rel_name = js ''users'', rel_type = Some (js ''table'')\<rparr>,
            \<lparr>rel_name = js ''daily_stats'', rel_type = Some (js ''materialized_view'')\<rparr>]
   \<and> sorted [js ''orders'', js ''users'']"
proof -
  from getTables_concatenates [of connectedMain 0 sample_catalog "js ''public''"]
    connectedMain_client
  have "fst (getTables_on sample_catalog (js ''public'') connectedMain) =
      Inr (tables_query sample_catalog (js ''public'') @ matview_query sample_catalog (js ''public''))"
    and "sorted (map rel_name (tables_query sample_catalog (js ''public'')))"
    by blast+
  with connectedMain_client show ?thesis
    by (simp add: sample_tables sample_matviews)
qed


section \<open>The saved connections\<close>








section \<open>The schema tree of the explorer\<close>

lemmas explorer_defs = rerender_def schemaEffect_def loadSchemas_def Object_is_def

lemma connect_success_store:
  "snd (connectToDatabase end_out (Inr ()) (Inr ()) connection st) =
     st\<lparr>isConnecting := False, connectionError := None,
        postgresqlService :=
          (postgresqlService st)
            \<lparr>connectionConfig_r := Some (contents connection), connected := True,
             main := snd (connect end_out (Inr ()) (contents connection)
                            (main (postgresqlService st)))\<rparr>,
        isConnected := True, selectedConnection := Some connection\<rparr>"
  by (simp add: connectToDatabase_def service_connect_def main_defs resolved_def Let_def
        split: option.splits sum.splits)

lemma connect_success_client:
  "client (snd (connect end_out (Inr ()) cfg s)) = Some (allocated s)"
  by (simp add: main_defs resolved_def Let_def split: option.splits sum.splits)

lemma effect_disconnected:
  "\<not> isConnected st \<or> selectedConnection st = None \<Longrightarrow>
   schemaEffect query_out st ex = (ex\<lparr>schemas := [], error_text := None\<rparr>, st)"
  by (auto simp: schemaEffect_def)

lemma effect_loaded:
  assumes "isConnected st" "selectedConnection st \<noteq> None"
    "connected (postgresqlService st)" "client (main (postgresqlService st)) \<noteq> None"
  shows "fst (schemaEffect (Inr schemaNames) st ex) =
           ex\<lparr>schemas := map schemaItem schemaNames, loading := False, error_text := None\<rparr>"
  using assms
  by (auto simp: schemaEffect_def loadSchemas_def service_getSchemas_def getSchemas_def Let_def)

lemma rerender_after_connect:
  assumes "\<not> isConnected st \<or> \<not> Object_is (selectedConnection st) (Some connection)"
  shows "fst (rerender st (Inr schemaNames)
                (snd (connectToDatabase end_out (Inr ()) (Inr ()) connection st)) ex) =
           ex\<lparr>schemas := map schemaItem schemaNames, loading := False, error_text := None\<rparr>"
proof -
  let ?st' = "snd (connectToDatabase end_out (Inr ()) (Inr ()) connection st)"
  have s: "isConnected ?st'" "selectedConnection ?st' = Some connection"
    "connected (postgresqlService ?st')"
    "client (main (postgresqlService ?st')) \<noteq> None"
    by (simp_all add: connect_success_store connect_success_client)
  from assms s(1,2) have "rerender st (Inr schemaNames) ?st' ex = schemaEffect (Inr schemaNames) ?st' ex"
    by (auto simp: rerender_def)
  with effect_loaded [of ?st' schemaNames ex] s show ?thesis by simp
qed

lemma rerender_after_disconnect:
  assumes "isConnected st"
  shows "fst (rerender st query_out (snd (disconnectFromDatabase end_out st)) ex) =
           ex\<lparr>schemas := [], error_text := None\<rparr>"
proof -
  have "\<not> isConnected (snd (disconnectFromDatabase end_out st))"
    by (simp add: disconnectFromDatabase_def service_disconnect_eval Let_def)
  with assms show ?thesis
    by (simp add: rerender_def effect_disconnected)
qed

text \<open>
  C2, as the code has it. The code keeps no epoch counter and tags no entry of the schema
  tree. The tree is rebuilt by an effect that runs when \<open>isConnected\<close> or
  \<open>selectedConnection\<close> is not what it was at the previous render. After a successful
  connect from a store that was not connected, or with a connection object other than the
  selected one, a schema query that succeeds replaces the whole tree by collapsed, empty
  nodes for exactly the names returned. After the disconnect of a connected store the tree
  is emptied, as it is whenever the effect runs on a store that is not connected or has no
  selected connection.
\<close>

theorem schema_tree_reloaded_on_connection_change:
  "(\<not> isConnected st \<or> \<not> Object_is (selectedConnection st) (Some connection) \<longrightarrow>
      fst (rerender st (Inr schemaNames)
             (snd (connectToDatabase end_out (Inr ()) (Inr ()) connection st)) ex) =
        ex\<lparr>schemas := map schemaItem schemaNames, loading := False, error_text := None\<rparr>)
   \<and> (isConnected st \<longrightarrow>
        fst (rerender st query_out (snd (disconnectFromDatabase end_out st)) ex) =
          ex\<lparr>schemas := [], error_text := None\<rparr>)
   \<and> (\<not> isConnected st \<or> selectedConnection st = None \<longrightarrow>
        schemaEffect query_out st ex = (ex\<lparr>schemas := [], error_text := None\<rparr>, st))"
  using rerender_after_connect [of st connection schemaNames end_out ex]
    rerender_after_disconnect [of st query_out end_out ex]
    effect_disconnected [of st query_out ex]
  by blast

lemma first_load_eval:
  "first_load =
     (\<lparr>schemas = [schemaItem (js ''sales'')], loading = False, error_text = None\<rparr>,
      connectedStore\<lparr>currentQuery := [],
        postgresqlService :=
          (postgresqlService connectedStore)
            \<lparr>main := driver_call (ClientQuery 0 SchemataQuery)
                       (main (postgresqlService connectedStore))\<rparr>\<rparr>)"
  by (simp add: first_load_def connectedStore_eval connect_success_store explorer_defs
        service_getSchemas_def main_defs initialStore_def initialSession_def
        initialMain_def initialExplorer_def resolved_def Let_def)

lemma second_connect_eval:
  "isConnected second_connect"
  "selectedConnection second_connect = Some (Obj 2 profile_reports)"
  "connectionConfig_r (postgresqlService second_connect) = Some profile_reports"
  "connected (postgresqlService second_connect)"
  "client (main (postgresqlService second_connect)) = Some 1"
  by (simp_all add: second_connect_def connect_success_store connect_success_client
        first_load_eval connectedStore_eval driver_call_def)

text \<open>
  C2 as stated fails: after a connect with \<open>profile_app\<close> whose schema query returns
  \<open>sales\<close>, a connect with \<open>profile_reports\<close> succeeds on a new client; the effect
  runs, the schema query is rejected, and the tree still shows \<open>sales\<close>, loaded under
  the first connection, while the second connection is the active one.
\<close>

theorem stale_schemas_counterexample:
  "map schema_item_name (schemas (fst first_load)) = [js ''sales'']
   \<and> connectionConfig_r (postgresqlService (snd first_load)) = Some profile_app
   \<and> client (main (postgresqlService (snd first_load))) = Some 0
   \<and> isConnected (snd second_load)
   \<and> selectedConnection (snd second_load) = Some (Obj 2 profile_reports)
   \<and> connectionConfig_r (postgresqlService (snd second_load)) = Some profile_reports
   \<and> client (main (postgresqlService (snd second_load))) = Some 1
   \<and> schemas (fst second_load) = schemas (fst first_load)
   \<and> map schema_item_name (schemas (fst second_load)) = [js ''sales'']"
proof -
  have a: "map schema_item_name (schemas (fst first_load)) = [js ''sales'']
   \<and> connectionConfig_r (postgresqlService (snd first_load)) = Some profile_app
   \<and> client (main (postgresqlService (snd first_load))) = Some 0"
    by (simp add: first_load_eval connectedStore_eval driver_call_def schemaItem_def)
  have sel: "selectedConnection (snd first_load) = Some (Obj 1 profile_app)"
    by (simp add: first_load_eval connectedStore_eval)
  have b: "second_load =
      ((fst first_load)\<lparr>error_text := Some (js ''Failed to load schemas: '' @ js ''permission denied''),
                         loading := False\<rparr>,
       second_connect\<lparr>postgresqlService :=
          (postgresqlService second_connect)
            \<lparr>main := driver_call (ClientQuery 1 SchemataQuery)
                       (main (postgresqlService second_connect))\<rparr>\<rparr>)"
    by (simp add: second_load_def rerender_def Object_is_def sel second_connect_eval
          schemaEffect_def loadSchemas_def service_getSchemas_def getSchemas_def Let_def)
  from a show ?thesis
    by (simp add: b second_connect_eval driver_call_def)
qed

theorem schema_tree_reloaded_on_connection_change_witness:
  "\<not> isConnected initialStore
   \<and> fst first_load = \<lparr>schemas = [schemaItem (js ''sales'')], loading = False, error_text = None\<rparr>
   \<and> isConnected connectedStore
   \<and> schemas (fst (rerender connectedStore (Inr [])
        (snd (disconnectFromDatabase (Inr ()) connectedStore)) (fst first_load))) = []
   \<and> schemas (fst (schemaEffect (Inr []) initialStore (fst first_load))) = []"
proof -
  have h1: "\<not> isConnected initialStore" by (simp add: initialStore_def)
  have h2: "isConnected connectedStore" by (simp add: connectedStore_eval)
  from schema_tree_reloaded_on_connection_change
         [of initialStore "Obj 1 profile_app" "[js ''sales'']" "Inr ()" initialExplorer] h1
  have a: "fst first_load =
      initialExplorer\<lparr>schemas := map schemaItem [js ''sales''], loading := False, error_text := None\<rparr>"
    by (simp add: first_load_def)
  from schema_tree_reloaded_on_connection_change
         [of connectedStore _ _ "Inr ()" "fst first_load" "Inr []"] h2
  have b: "fst (rerender connectedStore (Inr [])
        (snd (disconnectFromDatabase (Inr ()) connectedStore)) (fst first_load)) =
      (fst first_load)\<lparr>schemas := [], error_text := None\<rparr>"
    by blast
  from schema_tree_reloaded_on_connection_change
         [of initialStore _ _ _ "fst first_load" "Inr []"] h1
  have c: "schemaEffect (Inr []) initialStore (fst first_load) =
      ((fst first_load)\<lparr>schemas := [], error_text := None\<rparr>, initialStore)"
    by blast
  from h1 h2 a b c show ?thesis by (simp add: initialExplorer_def)
qed

end
